theory Spec2Isabelle
  imports Complex_Main
begin

section \<open>Data model (types.ts)\<close>

text \<open>
  A JavaScript \<open>number\<close> is modelled as a \<open>real\<close>: the coordinates, sizes and
  thresholds of this program are compared, subtracted and scaled, and rounding of the
  IEEE doubles is outside the model. Division is only used on the image's rendered
  width and height; statements about it assume both are positive, so that the quotient
  of the model is the quotient of the program (a zero divisor gives \<open>Infinity\<close> or
  \<open>NaN\<close> in the program and \<open>0\<close> in HOL).
\<close>

datatype ReferenceType = A4_PAPER | DOOR_FRAME

text \<open>The string values of the enum: \<open>A4_PAPER = 'A4_paper'\<close>, \<open>DOOR_FRAME = 'Door'\<close>.\<close>

fun ReferenceType_value :: "ReferenceType \<Rightarrow> string" where
  "ReferenceType_value A4_PAPER = ''A4_paper''"
| "ReferenceType_value DOOR_FRAME = ''Door''"

text \<open>\<open>type Point = [number, number]\<close>: the pair \<open>[x, y]\<close>; \<open>p[0]\<close> is \<open>fst p\<close>.\<close>

type_synonym Point = "real \<times> real"

text \<open>\<open>interface Box { start: Point; end: Point }\<close>.\<close>

record Box =
  box_start :: Point
  box_end :: Point

text \<open>
  \<open>interface ImageUpload { data: string; mimeType: string }\<close>. The upload handler
  stores the second piece of the data URL split at commas, which is \<open>undefined\<close>
  (\<open>None\<close>) when the URL has no comma.
\<close>

record ImageUpload =
  data :: "string option"
  mimeType :: string

text \<open>
  What \<open>JSON.parse\<close> returns. \<open>VisualizerState\<close> is the TypeScript type the
  program gives that value; nothing checks it at run time, so the model keeps the value.
\<close>

datatype json =
    JNull
  | JBool bool
  | JNumber real
  | JString string
  | JArray "json list"
  | JObject "(string \<times> json) list"

text \<open>
  A thrown value, with the text of its \<open>message\<close> property. \<open>Rejected m\<close> is what a
  promise of the service SDK or of the host rejects with: an object whose \<open>message\<close> is
  the string \<open>m\<close>, or is absent (\<open>None\<close>). The messages of the errors the engine
  raises itself are engine wording, written here without the quotation marks around the
  property name.
\<close>

datatype js_error =
    TypeError string
  | SyntaxError string
  | Error string
  | Rejected "string option"

fun message :: "js_error \<Rightarrow> string option" where
  "message (TypeError m) = Some m"
| "message (SyntaxError m) = Some m"
| "message (Error m) = Some m"
| "message (Rejected m) = m"


section \<open>Geometry editor (App.tsx)\<close>

text \<open>\<open>imgRef.current.getBoundingClientRect()\<close>.\<close>

record DOMRect =
  rect_left :: real
  rect_top :: real
  rect_width :: real
  rect_height :: real

text \<open>
  The event given to \<open>getNormalizedCoords\<close>: a mouse event with \<open>clientX\<close>,
  \<open>clientY\<close>, or a touch event with its list \<open>touches\<close> of such pairs.
\<close>

datatype pointer_event =
    MouseEvent real real
  | TouchEvent "(real \<times> real) list"

text \<open>
  Lines 83-90: a touch event is read at \<open>e.touches[0]\<close>; with no touch point that is
  \<open>undefined\<close> and reading \<open>clientX\<close> of it throws.
\<close>

fun client_position :: "pointer_event \<Rightarrow> js_error + (real \<times> real)" where
  "client_position (TouchEvent []) =
     Inl (TypeError ''Cannot read properties of undefined (reading clientX)'')"
| "client_position (TouchEvent (t # ts)) = Inr t"
| "client_position (MouseEvent clientX clientY) = Inr (clientX, clientY)"

text \<open>Lines 80-94. The first argument is \<open>imgRef.current\<close>'s rectangle, \<open>None\<close> when no image is mounted.\<close>

definition getNormalizedCoords :: "DOMRect option \<Rightarrow> pointer_event \<Rightarrow> js_error + Point option" where
  "getNormalizedCoords img e =
     (case img of
        None \<Rightarrow> Inr None
      | Some rect \<Rightarrow>
          (case client_position e of
             Inl err \<Rightarrow> Inl err
           | Inr (clientX, clientY) \<Rightarrow>
               (let x = ((clientX - rect_left rect) / rect_width rect) * 100;
                    y = ((clientY - rect_top rect) / rect_height rect) * 100
                in Inr (Some (max 0 (min 100 x), max 0 (min 100 y))))))"

text \<open>The part of the component's state (the \<open>useState\<close> cells of lines 18-35).\<close>

datatype promise_outcome = Resolves | Rejects

record app_state =
  roomImage :: "ImageUpload option"
  wallpaperImage :: "ImageUpload option"
  refType :: ReferenceType
  refHeight :: real
  isDrawing :: bool
  startPoint :: "Point option"
  currentBox :: "Box option"
  completedBoxes :: "Box list"
  mousePos :: "Point option"
  isAnalyzing :: bool
  isGenerating :: bool
  visualizedImage :: "string option"
  metadata :: "json option"
  error :: "string option"
  keySelected :: bool

text \<open>The initial values of the cells.\<close>

definition initial_state :: app_state where
  "initial_state =
     \<lparr>roomImage = None, wallpaperImage = None, refType = A4_PAPER, refHeight = 210,
      isDrawing = False, startPoint = None, currentBox = None, completedBoxes = [],
      mousePos = None, isAnalyzing = False, isGenerating = False, visualizedImage = None,
      metadata = None, error = None, keySelected = True\<rparr>"

text \<open>
  Lines 96-105. An event handler that throws leaves the state as it was; the handlers
  are bound to mouse events, for which \<open>client_position\<close> does not throw.
\<close>

definition handleMouseDown :: "DOMRect option \<Rightarrow> pointer_event \<Rightarrow> app_state \<Rightarrow> app_state" where
  "handleMouseDown img e s =
     (case getNormalizedCoords img e of
        Inr (Some coords) \<Rightarrow>
          s\<lparr>isDrawing := True, startPoint := Some coords,
            currentBox := Some \<lparr>box_start = coords, box_end = coords\<rparr>\<rparr>
      | _ \<Rightarrow> s)"

text \<open>Lines 107-114.\<close>

definition handleMouseMove :: "DOMRect option \<Rightarrow> pointer_event \<Rightarrow> app_state \<Rightarrow> app_state" where
  "handleMouseMove img e s =
     (case getNormalizedCoords img e of
        Inr (Some coords) \<Rightarrow>
          (let s1 = s\<lparr>mousePos := Some coords\<rparr>
           in case startPoint s of
                Some sp \<Rightarrow>
                  if isDrawing s then s1\<lparr>currentBox := Some \<lparr>box_start = sp, box_end = coords\<rparr>\<rparr>
                  else s1
              | None \<Rightarrow> s1)
      | _ \<Rightarrow> s)"

text \<open>Lines 116-128.\<close>

definition handleMouseUp :: "app_state \<Rightarrow> app_state" where
  "handleMouseUp s =
     (let s1 =
        (case currentBox s of
           Some cb \<Rightarrow>
             if isDrawing s then
               (let width = \<bar>fst (box_end cb) - fst (box_start cb)\<bar>;
                    height = \<bar>snd (box_end cb) - snd (box_start cb)\<bar>
                in if width > 0.5 \<and> height > 0.5
                   then s\<lparr>completedBoxes := completedBoxes s @ [cb]\<rparr>
                   else s)
             else s
         | None \<Rightarrow> s)
      in s1\<lparr>isDrawing := False, startPoint := None, currentBox := None\<rparr>)"

text \<open>Lines 130-135 (\<open>slice(0, -1)\<close> drops the last element).\<close>

definition undoLastBox :: "app_state \<Rightarrow> app_state" where
  "undoLastBox s =
     (if length (completedBoxes s) > 0
      then s\<lparr>completedBoxes := butlast (completedBoxes s)\<rparr>
      else s)"


section \<open>Estimation client (services/geminiService.ts)\<close>

text \<open>Lines 24-32: the corners of one box, in the order the \<open>map\<close> callback lists them.\<close>

definition box_corners :: "Box \<Rightarrow> Point list" where
  "box_corners box =
     (let x1 = fst (box_start box);
          y1 = snd (box_start box);
          x2 = fst (box_end box);
          y2 = snd (box_end box)
      in [(x1, y1), (x2, y1), (x2, y2), (x1, y2)])"

definition boxesAsPoints :: "Box list \<Rightarrow> Point list list" where
  "boxesAsPoints userBoxes = map box_corners userBoxes"

text \<open>
  The order the specification names: (minX,minY), (maxX,minY), (maxX,maxY), (minX,maxY).
  This definition follows the specification's words and is only compared with
  \<open>box_corners\<close>.
\<close>

definition spec_corners :: "Box \<Rightarrow> Point list" where
  "spec_corners box =
     (let minX = min (fst (box_start box)) (fst (box_end box));
          maxX = max (fst (box_start box)) (fst (box_end box));
          minY = min (snd (box_start box)) (snd (box_end box));
          maxY = max (snd (box_start box)) (snd (box_end box))
      in [(minX, minY), (maxX, minY), (maxX, maxY), (minX, maxY)])"


text \<open>
  \<open>JSON.parse\<close> and the service SDK are not code of this repository: they are
  parameters of the model. A service parameter stands for \<open>getAI()\<close> followed by
  \<open>generateContent\<close>: it answers a request with a response or with the value thrown.
  A response of the SDK carries \<open>candidates\<close> (each with optional \<open>content.parts\<close>) and
  the getter \<open>text\<close>.
\<close>

record Blob =
  blob_data :: "string option"
  blob_mimeType :: "string option"

record Part =
  inlineData :: "Blob option"
  part_text :: "string option"

record Content =
  parts :: "Part list option"

record Candidate =
  content :: "Content option"

record GenerateContentResponse =
  candidates :: "Candidate list option"
  response_text :: "string option"

text \<open>
  The request of lines 64-111. Of the prompt the record holds the fixed wording of the
  roll rule (lines 38-41) and of the calculation step (lines 46-48), and, in order, the
  values the template literal interpolates: the scaling instruction (line 43),
  \<open>userBoxes.length\<close> (line 44), \<open>boxesAsPoints\<close> (line 51), \<open>refType\<close> and
  \<open>refHeight\<close> of the format example (line 55). It also holds the \<open>required\<close> list of
  the response schema (line 108).
\<close>

datatype scaling_instruction = a4Instruction | doorInstruction real

record analysis_request =
  analysis_model :: string
  analysis_images :: "ImageUpload list"
  prompt_roll_logic :: "string list"
  prompt_scaling :: scaling_instruction
  prompt_box_count :: nat
  prompt_calculation :: "string list"
  prompt_boxes :: "Point list list"
  prompt_reference_type :: string
  prompt_real_world_cm :: real
  schema_required :: "string list"

text \<open>Lines 38-41 and 46-48 of the prompt, one string for each line.\<close>

definition roll_logic_lines :: "string list" where
  \<open>roll_logic_lines =
     [''- This is a non-repeating panoramic wallpaper.'',
      ''- Each "Roll" is exactly ONE unique vertical strip of 70cm width.'',
      ''- Strips are printed in sequence (Strip 1, Strip 2, etc.).'',
      ''- Partial strips required to cover a section count as ONE FULL unique roll.'']\<close>

definition calculation_lines :: "string list" where
  \<open>calculation_lines =
     [''- For each rectangular box, determine its maximum horizontal width in real-world cm using the calibration scale.'',
      ''- Calculate strips for that region: ceil(Horizontal Width in cm / 70).'',
      ''- Sum the strips needed for all regions. This is 'total_rolls_estimated'.'']\<close>

text \<open>
  The request of lines 138-153: \<open>metadata.regions.length\<close> and the list
  \<open>metadata.regions.map(r => r.points)\<close> that \<open>JSON.stringify\<close> serialises.
\<close>

record synthesis_request =
  synthesis_model :: string
  synthesis_images :: "ImageUpload list"
  prompt_region_count :: nat
  prompt_regions :: "json list"
  aspectRatio :: string
  imageSize :: string

text \<open>The calls that leave the program, in the order they are made.\<close>

datatype service_call =
    AnalysisCall analysis_request
  | SynthesisCall synthesis_request
  | OpenSelectKey

record environment =
  JSON_parse :: "string \<Rightarrow> js_error + json"
  analysis_service :: "analysis_request \<Rightarrow> js_error + GenerateContentResponse"
  synthesis_service :: "synthesis_request \<Rightarrow> js_error + GenerateContentResponse"
  aistudio :: "promise_outcome option"

text \<open>Line 113: \<open>response.text || "{}"\<close>; \<open>undefined\<close> and the empty string are falsy.\<close>

definition text_or_default :: "string option \<Rightarrow> string" where
  "text_or_default t = (case t of None \<Rightarrow> ''{}'' | Some u \<Rightarrow> if u = [] then ''{}'' else u)"

text \<open>The request \<open>analyzeMarkedRegions\<close> builds from its arguments.\<close>

definition analysis_request_of ::
  "ImageUpload \<Rightarrow> ImageUpload \<Rightarrow> string \<Rightarrow> real \<Rightarrow> Box list \<Rightarrow> analysis_request" where
  "analysis_request_of roomImg wallpaperImg refTy refH userBoxes =
     \<lparr>analysis_model = ''gemini-3-pro-preview'',
      analysis_images = [roomImg, wallpaperImg],
      prompt_roll_logic = roll_logic_lines,
      prompt_scaling = (if refTy = ''A4_paper'' then a4Instruction else doorInstruction refH),
      prompt_box_count = length userBoxes,
      prompt_calculation = calculation_lines,
      prompt_boxes = boxesAsPoints userBoxes,
      prompt_reference_type = refTy,
      prompt_real_world_cm = refH,
      schema_required = [''calibration'', ''wallpaper'', ''regions'', ''total_rolls_estimated'']\<rparr>"

text \<open>
  Lines 11-114. The result is the list of calls made and either the thrown value or the
  value returned.
\<close>

definition analyzeMarkedRegions ::
  "environment \<Rightarrow> ImageUpload \<Rightarrow> ImageUpload \<Rightarrow> string \<Rightarrow> real \<Rightarrow> Box list
     \<Rightarrow> service_call list \<times> (js_error + json)" where
  "analyzeMarkedRegions env roomImg wallpaperImg refTy refH userBoxes =
     (let request = analysis_request_of roomImg wallpaperImg refTy refH userBoxes
      in case analysis_service env request of
           Inl err \<Rightarrow> ([AnalysisCall request], Inl err)
         | Inr response \<Rightarrow>
             ([AnalysisCall request], JSON_parse env (text_or_default (response_text response))))"


section \<open>Visualization client (services/geminiService.ts)\<close>

text \<open>
  Property reads on a parsed value. The pairs of a \<open>JObject\<close> are the object's own
  properties (their names distinct, as \<open>JSON.parse\<close> builds them); a read of a missing
  property, or of any property name used here on a boolean, number, string or array,
  is \<open>undefined\<close> (\<open>None\<close>); a read on \<open>null\<close> throws.
\<close>

fun get_property :: "json \<Rightarrow> string \<Rightarrow> js_error + json option" where
  "get_property JNull name =
     Inl (TypeError (''Cannot read properties of null (reading '' @ name @ '')''))"
| "get_property (JObject kvs) name = Inr (map_of kvs name)"
| "get_property v name = Inr None"

text \<open>\<open>rs.map(r => r.points)\<close>, stopping at the first element whose read throws.\<close>

fun map_points :: "json list \<Rightarrow> js_error + json option list" where
  "map_points [] = Inr []"
| "map_points (r # rs) =
     (case get_property r ''points'' of
        Inl err \<Rightarrow> Inl err
      | Inr p \<Rightarrow> (case map_points rs of Inl err \<Rightarrow> Inl err | Inr ps \<Rightarrow> Inr (p # ps)))"

text \<open>
  Line 125, \<open>metadata.regions.map(r => r.points)\<close>: only an array has a \<open>map\<close> method
  among parsed values.
\<close>

definition region_points :: "json \<Rightarrow> js_error + json option list" where
  "region_points md =
     (case get_property md ''regions'' of
        Inl err \<Rightarrow> Inl err
      | Inr None \<Rightarrow> Inl (TypeError ''Cannot read properties of undefined (reading map)'')
      | Inr (Some JNull) \<Rightarrow> Inl (TypeError ''Cannot read properties of null (reading map)'')
      | Inr (Some (JArray rs)) \<Rightarrow> map_points rs
      | Inr (Some v) \<Rightarrow> Inl (TypeError ''metadata.regions.map is not a function''))"

text \<open>\<open>JSON.stringify\<close> writes an \<open>undefined\<close> array element as \<open>null\<close>.\<close>

definition stringify_element :: "json option \<Rightarrow> json" where
  "stringify_element p = (case p of None \<Rightarrow> JNull | Some v \<Rightarrow> v)"

text \<open>Line 155: \<open>response.candidates?.[0]?.content?.parts || []\<close>.\<close>

definition response_parts :: "GenerateContentResponse \<Rightarrow> Part list" where
  "response_parts response =
     (case candidates response of
        None \<Rightarrow> []
      | Some [] \<Rightarrow> []
      | Some (c # cs) \<Rightarrow>
          (case content c of
             None \<Rightarrow> []
           | Some ct \<Rightarrow> (case parts ct of None \<Rightarrow> [] | Some ps \<Rightarrow> ps)))"

text \<open>
  Line 157: the template literal; an \<open>undefined\<close> \<open>data\<close> is written as the text
  \<open>undefined\<close>.
\<close>

definition data_uri :: "Blob \<Rightarrow> string" where
  "data_uri b =
     ''data:image/png;base64,'' @ (case blob_data b of None \<Rightarrow> ''undefined'' | Some d \<Rightarrow> d)"

text \<open>The loop of lines 155-159; \<open>None\<close> when the loop ends without returning.\<close>

fun scan_parts :: "Part list \<Rightarrow> string option" where
  "scan_parts [] = None"
| "scan_parts (part # rest) =
     (case inlineData part of
        Some b \<Rightarrow> Some (data_uri b)
      | None \<Rightarrow> scan_parts rest)"

text \<open>The request \<open>generateMaskedVisualization\<close> builds once the region list is read.\<close>

definition synthesis_request_of ::
  "ImageUpload \<Rightarrow> ImageUpload \<Rightarrow> json option list \<Rightarrow> synthesis_request" where
  "synthesis_request_of roomImg wallpaperImg pts =
     \<lparr>synthesis_model = ''gemini-3-pro-image-preview'',
      synthesis_images = [roomImg, wallpaperImg],
      prompt_region_count = length pts,
      prompt_regions = map stringify_element pts,
      aspectRatio = ''16:9'',
      imageSize = ''1K''\<rparr>"

text \<open>Lines 119-162.\<close>

definition generateMaskedVisualization ::
  "environment \<Rightarrow> ImageUpload \<Rightarrow> ImageUpload \<Rightarrow> json
     \<Rightarrow> service_call list \<times> (js_error + string)" where
  "generateMaskedVisualization env roomImg wallpaperImg md =
     (case region_points md of
        Inl err \<Rightarrow> ([], Inl err)
      | Inr pts \<Rightarrow>
          (let request = synthesis_request_of roomImg wallpaperImg pts
           in case synthesis_service env request of
                Inl err \<Rightarrow> ([SynthesisCall request], Inl err)
              | Inr response \<Rightarrow>
                  ([SynthesisCall request],
                   case scan_parts (response_parts response) of
                     Some uri \<Rightarrow> Inr uri
                   | None \<Rightarrow> Inl (Error ''Visualization synthesis failed''))))"


section \<open>Session controller (App.tsx)\<close>

text \<open>\<open>String.prototype.includes\<close>.\<close>

fun string_includes :: "string \<Rightarrow> string \<Rightarrow> bool" where
  "string_includes [] sub = (sub = [])"
| "string_includes (c # cs) sub = (take (length sub) (c # cs) = sub \<or> string_includes cs sub)"

text \<open>\<open>String.prototype.split\<close> with a one-character separator.\<close>

fun string_split :: "char \<Rightarrow> string \<Rightarrow> string list" where
  "string_split sep [] = [[]]"
| "string_split sep (c # cs) =
     (if c = sep then [] # string_split sep cs
      else (case string_split sep cs of
              [] \<Rightarrow> [[c]]
            | w # ws \<Rightarrow> (c # w) # ws))"

text \<open>
  The file chosen in the input element and what the \<open>FileReader\<close> read from it:
  \<open>reader.result\<close> (\<open>null\<close>, here \<open>None\<close>, when the read failed) and \<open>file.type\<close>.
\<close>

record upload_file =
  reader_result :: "string option"
  file_type :: string

datatype image_setter = setRoomImage | setWallpaperImage

text \<open>
  Lines 63-78, with the \<open>onloadend\<close> callback run on the state \<open>s\<close>. With a \<open>null\<close>
  result the callback throws at \<open>split\<close> before any setter runs.
\<close>

definition handleFileUpload :: "upload_file option \<Rightarrow> image_setter \<Rightarrow> app_state \<Rightarrow> app_state" where
  "handleFileUpload file setter s =
     (case file of
        None \<Rightarrow> s
      | Some f \<Rightarrow>
          (case reader_result f of
             None \<Rightarrow> s
           | Some url \<Rightarrow>
               (let base64 = (case string_split CHR '','' url of a # b # _ \<Rightarrow> Some b | _ \<Rightarrow> None);
                    img = \<lparr>data = base64, mimeType = file_type f\<rparr>;
                    s1 = (case setter of
                            setRoomImage \<Rightarrow> s\<lparr>roomImage := Some img\<rparr>
                          | setWallpaperImage \<Rightarrow> s\<lparr>wallpaperImage := Some img\<rparr>)
                in if setter = setRoomImage
                   then s1\<lparr>completedBoxes := [], visualizedImage := None,
                           metadata := None, error := None\<rparr>
                   else s1)))"

text \<open>Line 295, the button over the wallpaper image: \<open>setWallpaperImage(null)\<close>.\<close>

definition clearWallpaperImage :: "app_state \<Rightarrow> app_state" where
  "clearWallpaperImage s = s\<lparr>wallpaperImage := None\<rparr>"

text \<open>Lines 310 and 320, the calibration controls.\<close>

definition setRefType :: "ReferenceType \<Rightarrow> app_state \<Rightarrow> app_state" where
  "setRefType t s = s\<lparr>refType := t\<rparr>"

definition setRefHeight :: "real \<Rightarrow> app_state \<Rightarrow> app_state" where
  "setRefHeight h s = s\<lparr>refHeight := h\<rparr>"

text \<open>Lines 166-176.\<close>

definition reset :: "app_state \<Rightarrow> app_state" where
  "reset s =
     s\<lparr>roomImage := None, wallpaperImage := None, visualizedImage := None, metadata := None,
       error := None, completedBoxes := [], isDrawing := False, startPoint := None,
       currentBox := None\<rparr>"

text \<open>
  Lines 52-61. Without \<open>window.aistudio\<close> nothing happens; a rejected
  \<open>openSelectKey\<close> is caught and logged.
\<close>

definition handleSelectKey :: "environment \<Rightarrow> app_state \<Rightarrow> service_call list \<times> app_state" where
  "handleSelectKey env s =
     (case aistudio env of
        None \<Rightarrow> ([], s)
      | Some Resolves \<Rightarrow> ([OpenSelectKey], s\<lparr>keySelected := True\<rparr>)
      | Some Rejects \<Rightarrow> ([OpenSelectKey], s))"

definition validation_message :: string where
  "validation_message = ''Please draw at least one area box and upload a pattern before beginning.''"

definition generic_message :: string where
  "generic_message = ''Atelier synthesis failed. Please re-check markers and spatial calibration.''"

text \<open>Line 154: \<open>err.message?.includes("Requested entity was not found.")\<close>.\<close>

definition is_key_failure :: "js_error \<Rightarrow> bool" where
  "is_key_failure err =
     (case message err of
        None \<Rightarrow> False
      | Some m \<Rightarrow> string_includes m ''Requested entity was not found.'')"

text \<open>
  Line 148, what \<open>setMetadata(analysisData)\<close> puts into the cell: the cell is \<open>null\<close>
  (\<open>None\<close>) when empty, so a parsed \<open>null\<close> leaves it empty.
\<close>

definition metadata_cell :: "json \<Rightarrow> json option" where
  "metadata_cell analysisData = (if analysisData = JNull then None else Some analysisData)"

text \<open>
  The body of the \<open>try\<close> block, lines 146-152: the calls made, the state reached, and
  the value thrown if one was.
\<close>

definition startProcess_try ::
  "environment \<Rightarrow> ImageUpload \<Rightarrow> ImageUpload \<Rightarrow> app_state
     \<Rightarrow> service_call list \<times> app_state \<times> js_error option" where
  "startProcess_try env room wall s =
     (let actualHeight = (if refType s = A4_PAPER then 29.7 else refHeight s);
          (calls1, r1) = analyzeMarkedRegions env room wall (ReferenceType_value (refType s))
                           actualHeight (completedBoxes s)
      in case r1 of
           Inl err \<Rightarrow> (calls1, s, Some err)
         | Inr analysisData \<Rightarrow>
             (let s1 = s\<lparr>metadata := metadata_cell analysisData,
                          isAnalyzing := False, isGenerating := True\<rparr>;
                  (calls2, r2) = generateMaskedVisualization env room wall analysisData
              in case r2 of
                   Inl err \<Rightarrow> (calls1 @ calls2, s1, Some err)
                 | Inr resultImage \<Rightarrow>
                     (calls1 @ calls2, s1\<lparr>visualizedImage := Some resultImage\<rparr>, None)))"

text \<open>The \<open>finally\<close> block, lines 160-163.\<close>

definition startProcess_finally :: "app_state \<Rightarrow> app_state" where
  "startProcess_finally s = s\<lparr>isAnalyzing := False, isGenerating := False\<rparr>"

text \<open>The \<open>catch\<close> block, lines 153-159, followed by the \<open>finally\<close> block.\<close>

definition startProcess_catch ::
  "environment \<Rightarrow> js_error \<Rightarrow> app_state \<Rightarrow> service_call list \<times> app_state" where
  "startProcess_catch env err s =
     (if is_key_failure err
      then (let (calls, s1) = handleSelectKey env (s\<lparr>keySelected := False\<rparr>)
            in (calls, startProcess_finally s1))
      else ([], startProcess_finally (s\<lparr>error := Some generic_message\<rparr>)))"

text \<open>Line 327: the condition under which the button bound to \<open>startProcess\<close> is disabled.\<close>

definition synthesize_disabled :: "app_state \<Rightarrow> bool" where
  "synthesize_disabled s =
     (roomImage s = None \<or> wallpaperImage s = None \<or> length (completedBoxes s) = 0)"

text \<open>Lines 137-164, run to completion.\<close>

definition startProcess :: "environment \<Rightarrow> app_state \<Rightarrow> service_call list \<times> app_state" where
  "startProcess env s =
     (case roomImage s of
        None \<Rightarrow> ([], s\<lparr>error := Some validation_message\<rparr>)
      | Some room \<Rightarrow>
          (case wallpaperImage s of
             None \<Rightarrow> ([], s\<lparr>error := Some validation_message\<rparr>)
           | Some wall \<Rightarrow>
               if length (completedBoxes s) = 0
               then ([], s\<lparr>error := Some validation_message\<rparr>)
               else
                 (let (calls, s1, thrown) =
                        startProcess_try env room wall (s\<lparr>error := None, isAnalyzing := True\<rparr>)
                  in case thrown of
                       None \<Rightarrow> (calls, startProcess_finally s1)
                     | Some err \<Rightarrow>
                         (let (calls2, s2) = startProcess_catch env err s1
                          in (calls @ calls2, s2)))))"


section \<open>Notions of the specification and closed instances\<close>

text \<open>
  The strip rule in the specification's words: strips for a region are
  \<open>ceiling(width in cm / 70)\<close>, and the total is their sum over the regions. The program
  has no such computation; these definitions only serve to compare the values it returns.
\<close>

definition spec_strips :: "real \<Rightarrow> int" where
  "spec_strips width_cm = \<lceil>width_cm / 70\<rceil>"

definition spec_total_rolls :: "real list \<Rightarrow> int" where
  "spec_total_rolls widths = sum_list (map spec_strips widths)"

text \<open>The required fields of the result shape, in the specification's words.\<close>

definition spec_has_required_fields :: "json \<Rightarrow> bool" where
  "spec_has_required_fields v =
     (case v of
        JObject kvs \<Rightarrow>
          list_all (\<lambda>name. map_of kvs name \<noteq> None)
            [''calibration'', ''wallpaper'', ''regions'', ''total_rolls_estimated'']
      | _ \<Rightarrow> False)"

text \<open>Reading \<open>total_rolls_estimated\<close> and the \<open>width_cm\<close> of each region off a result.\<close>

definition number_property :: "json \<Rightarrow> string \<Rightarrow> real option" where
  "number_property v name =
     (case get_property v name of Inr (Some (JNumber n)) \<Rightarrow> Some n | _ \<Rightarrow> None)"

definition region_widths :: "json \<Rightarrow> real option list" where
  "region_widths v =
     (case get_property v ''regions'' of
        Inr (Some (JArray rs)) \<Rightarrow> map (\<lambda>r. number_property r ''width_cm'') rs
      | _ \<Rightarrow> [])"

text \<open>
  An instance of the \<open>JSON_parse\<close> parameter for closed examples: each text of the table
  is paired with the value it denotes, and the examples parse no other text.
\<close>

definition JSON_parse_table :: "(string \<times> json) list \<Rightarrow> string \<Rightarrow> js_error + json" where
  "JSON_parse_table tbl s =
     (case map_of tbl s of
        Some v \<Rightarrow> Inr v
      | None \<Rightarrow> Inl (SyntaxError ''Unexpected token''))"

text \<open>An environment whose two services give the same answer to every request.\<close>

definition constant_environment ::
  "(string \<times> json) list \<Rightarrow> js_error + GenerateContentResponse
     \<Rightarrow> js_error + GenerateContentResponse \<Rightarrow> promise_outcome option \<Rightarrow> environment" where
  "constant_environment tbl analysis synthesis studio =
     \<lparr>JSON_parse = JSON_parse_table tbl,
      analysis_service = (\<lambda>request. analysis),
      synthesis_service = (\<lambda>request. synthesis),
      aistudio = studio\<rparr>"

text \<open>Sample images, a committed box and a session ready for synthesis.\<close>

definition sample_room :: ImageUpload where
  "sample_room = \<lparr>data = Some ''cm9vbQ=='', mimeType = ''image/png''\<rparr>"

definition sample_wallpaper :: ImageUpload where
  "sample_wallpaper = \<lparr>data = Some ''cGFwZXI='', mimeType = ''image/jpeg''\<rparr>"

definition sample_box :: Box where
  "sample_box = \<lparr>box_start = (10, 10), box_end = (60, 40)\<rparr>"

definition ready_state :: app_state where
  "ready_state =
     initial_state\<lparr>roomImage := Some sample_room, wallpaperImage := Some sample_wallpaper,
                   completedBoxes := [sample_box]\<rparr>"


text \<open>
  A response text with every required field, one region 140 cm wide and a total of 7
  rolls, and the value this text denotes.
\<close>

definition overcount_text :: string where
  \<open>overcount_text =
     ''{"calibration":{"reference_type":"Door","real_world_cm":210},''
     @ ''"wallpaper":{"master_width_cm":500,"master_height_cm":300,''
     @ ''"roll_width_cm":70,"roll_length_cm":300},''
     @ ''"regions":[{"points":[[10,10],[60,10],[60,40],[10,40]],''
     @ ''"width_cm":140,"height_cm":250,"area_sq_m":3.5}],''
     @ ''"total_rolls_estimated":7}''\<close>

definition overcount_value :: json where
  "overcount_value =
     JObject
       [(''calibration'',
           JObject [(''reference_type'', JString ''Door''), (''real_world_cm'', JNumber 210)]),
        (''wallpaper'',
           JObject [(''master_width_cm'', JNumber 500), (''master_height_cm'', JNumber 300),
                    (''roll_width_cm'', JNumber 70), (''roll_length_cm'', JNumber 300)]),
        (''regions'',
           JArray
             [JObject
                [(''points'',
                    JArray [JArray [JNumber 10, JNumber 10], JArray [JNumber 60, JNumber 10],
                            JArray [JNumber 60, JNumber 40], JArray [JNumber 10, JNumber 40]]),
                 (''width_cm'', JNumber 140), (''height_cm'', JNumber 250),
                 (''area_sq_m'', JNumber 3.5)]]),
        (''total_rolls_estimated'', JNumber 7)]"

text \<open>A response text that lacks three of the required fields, and its value.\<close>

definition regions_only_text :: string where
  \<open>regions_only_text = ''{"regions":[]}''\<close>

definition regions_only_value :: json where
  "regions_only_value = JObject [(''regions'', JArray [])]"

text \<open>The texts above and the fallback text of line 113, each with its value.\<close>

definition sample_texts :: "(string \<times> json) list" where
  "sample_texts =
     [(''{}'', JObject []), (regions_only_text, regions_only_value),
      (overcount_text, overcount_value)]"

text \<open>An analysis response that carries the given text and no candidates.\<close>

definition text_response :: "string option \<Rightarrow> GenerateContentResponse" where
  "text_response t = \<lparr>candidates = None, response_text = t\<rparr>"


text \<open>
  The inline payloads of a response in the specification's words: every inline payload
  found in the response, over all its candidates and their parts, in order. This
  definition is only compared with what \<open>generateMaskedVisualization\<close> reads.
\<close>

definition candidate_payloads :: "Candidate \<Rightarrow> Blob list" where
  "candidate_payloads c =
     (case content c of
        None \<Rightarrow> []
      | Some ct \<Rightarrow> (case parts ct of None \<Rightarrow> [] | Some ps \<Rightarrow> List.map_filter inlineData ps))"

definition spec_inline_payloads :: "GenerateContentResponse \<Rightarrow> Blob list" where
  "spec_inline_payloads response =
     (case candidates response of None \<Rightarrow> [] | Some cs \<Rightarrow> concat (map candidate_payloads cs))"

text \<open>
  A synthesis response with two candidates: the first holds a text part only, the second
  holds the rendered image.
\<close>

definition image_in_second_candidate :: GenerateContentResponse where
  "image_in_second_candidate =
     \<lparr>candidates = Some
        [\<lparr>content = Some \<lparr>parts = Some
            [\<lparr>inlineData = None, part_text = Some ''Rendering the room.''\<rparr>]\<rparr>\<rparr>,
         \<lparr>content = Some \<lparr>parts = Some
            [\<lparr>inlineData = Some \<lparr>blob_data = Some ''QUJD'', blob_mimeType = Some ''image/png''\<rparr>,
              part_text = None\<rparr>]\<rparr>\<rparr>],
      response_text = Some ''Rendering the room.''\<rparr>"


section \<open>Corner order of a committed box\<close>

text \<open>
  C1, as stated, fails: a box dragged from (60,40) to (10,10) is sent with (60,40) as its
  first corner, not the (minimum-x, minimum-y) corner (10,10).
\<close>

theorem boxesAsPoints_not_min_first:
  "boxesAsPoints [\<lparr>box_start = (60, 40), box_end = (10, 10)\<rparr>]
     = [[(60, 40), (10, 40), (10, 10), (60, 10)]]
   \<and> spec_corners \<lparr>box_start = (60, 40), box_end = (10, 10)\<rparr>
     = [(10, 10), (60, 10), (60, 40), (10, 40)]
   \<and> hd (hd (boxesAsPoints [\<lparr>box_start = (60, 40), box_end = (10, 10)\<rparr>]))
     \<noteq> hd (spec_corners \<lparr>box_start = (60, 40), box_end = (10, 10)\<rparr>)"
  by (simp add: boxesAsPoints_def box_corners_def spec_corners_def)

text \<open>
  C1, amended: every committed box is converted, in list order, into the four corners
  (start.x,start.y), (end.x,start.y), (end.x,end.y), (start.x,end.y), with no minimum or
  maximum taken. These are always the four corners of the rectangle (the same set as the
  min/max corners), and they are in the order (minX,minY), (maxX,minY), (maxX,maxY),
  (minX,maxY) exactly when the box was drawn with start.x \<le> end.x and start.y \<le> end.y.
\<close>

theorem boxesAsPoints_corners:
  "boxesAsPoints bs =
     map (\<lambda>b. [(fst (box_start b), snd (box_start b)), (fst (box_end b), snd (box_start b)),
               (fst (box_end b), snd (box_end b)), (fst (box_start b), snd (box_end b))]) bs
   \<and> (\<forall>b \<in> set bs.
        set (box_corners b) = set (spec_corners b)
        \<and> (box_corners b = spec_corners b
             \<longleftrightarrow> fst (box_start b) \<le> fst (box_end b) \<and> snd (box_start b) \<le> snd (box_end b)))"
proof -
  have order: "box_corners b = spec_corners b
      \<longleftrightarrow> fst (box_start b) \<le> fst (box_end b) \<and> snd (box_start b) \<le> snd (box_end b)" for b
    by (auto simp: box_corners_def spec_corners_def Let_def min_def max_def)
  have same: "set (box_corners b) = set (spec_corners b)" for b
    by (auto simp: box_corners_def spec_corners_def Let_def min_def max_def)
  have shape: "boxesAsPoints bs =
     map (\<lambda>b. [(fst (box_start b), snd (box_start b)), (fst (box_end b), snd (box_start b)),
               (fst (box_end b), snd (box_end b)), (fst (box_start b), snd (box_end b))]) bs"
    by (simp add: boxesAsPoints_def box_corners_def Let_def)
  from order same shape show ?thesis by blast
qed

theorem boxesAsPoints_corners_witness:
  "boxesAsPoints [\<lparr>box_start = (10, 10), box_end = (60, 40)\<rparr>]
     = [[(10, 10), (60, 10), (60, 40), (10, 40)]]
   \<and> box_corners \<lparr>box_start = (10, 10), box_end = (60, 40)\<rparr>
     = spec_corners \<lparr>box_start = (10, 10), box_end = (60, 40)\<rparr>
   \<and> box_corners \<lparr>box_start = (60, 10), box_end = (10, 40)\<rparr>
     \<noteq> spec_corners \<lparr>box_start = (60, 10), box_end = (10, 40)\<rparr>"
  using boxesAsPoints_corners [of "[\<lparr>box_start = (10, 10), box_end = (60, 40)\<rparr>]"]
    boxesAsPoints_corners [of "[\<lparr>box_start = (60, 10), box_end = (10, 40)\<rparr>]"]
  by simp


section \<open>Committing a drawn box\<close>

text \<open>
  C5: for every in-progress box (the editor is drawing and holds a current box),
  \<open>handleMouseUp\<close> appends the box at the end of the committed list if and only if both
  \<bar>end.x - start.x\<bar> > 0.5 and \<bar>end.y - start.y\<bar> > 0.5; in every case it leaves the
  drawing state and discards the in-progress box and the start point; a zero-size box
  (end = start) is never appended.
\<close>

theorem handleMouseUp_commits_large_boxes:
  assumes "isDrawing s" and "currentBox s = Some cb"
  shows "completedBoxes (handleMouseUp s) =
           (if \<bar>fst (box_end cb) - fst (box_start cb)\<bar> > 0.5
                \<and> \<bar>snd (box_end cb) - snd (box_start cb)\<bar> > 0.5
            then completedBoxes s @ [cb] else completedBoxes s)
         \<and> \<not> isDrawing (handleMouseUp s)
         \<and> currentBox (handleMouseUp s) = None
         \<and> startPoint (handleMouseUp s) = None
         \<and> (box_end cb = box_start cb \<longrightarrow> completedBoxes (handleMouseUp s) = completedBoxes s)"
  using assms by (simp add: handleMouseUp_def Let_def)

theorem handleMouseUp_commits_large_boxes_witness:
  "completedBoxes (handleMouseUp (initial_state\<lparr>isDrawing := True, startPoint := Some (10, 10),
       currentBox := Some sample_box\<rparr>)) = [sample_box]
   \<and> completedBoxes (handleMouseUp (initial_state\<lparr>isDrawing := True, startPoint := Some (10, 10),
       currentBox := Some \<lparr>box_start = (10, 10), box_end = (10, 10)\<rparr>\<rparr>)) = []
   \<and> completedBoxes (handleMouseUp (initial_state\<lparr>isDrawing := True, startPoint := Some (10, 10),
       currentBox := Some \<lparr>box_start = (10, 10), box_end = (60, 10.5)\<rparr>\<rparr>)) = []"
  using handleMouseUp_commits_large_boxes [of "initial_state\<lparr>isDrawing := True, startPoint := Some (10, 10),
       currentBox := Some sample_box\<rparr>" sample_box]
    handleMouseUp_commits_large_boxes [of "initial_state\<lparr>isDrawing := True, startPoint := Some (10, 10),
       currentBox := Some \<lparr>box_start = (10, 10), box_end = (10, 10)\<rparr>\<rparr>" "\<lparr>box_start = (10, 10), box_end = (10, 10)\<rparr>"]
    handleMouseUp_commits_large_boxes [of "initial_state\<lparr>isDrawing := True, startPoint := Some (10, 10),
       currentBox := Some \<lparr>box_start = (10, 10), box_end = (60, 10.5)\<rparr>\<rparr>" "\<lparr>box_start = (10, 10), box_end = (60, 10.5)\<rparr>"]
  by (simp add: initial_state_def sample_box_def)

text \<open>Outside the drawing state the release commits nothing.\<close>

lemma handleMouseUp_not_drawing:
  "\<not> isDrawing s \<or> currentBox s = None \<Longrightarrow>
     completedBoxes (handleMouseUp s) = completedBoxes s"
  by (auto simp: handleMouseUp_def Let_def split: option.splits)

text \<open>A press and a release at the same position leave the committed list as it was.\<close>

lemma click_and_release_adds_nothing:
  assumes "getNormalizedCoords img e = Inr (Some p)"
  shows "completedBoxes (handleMouseUp (handleMouseDown img e s)) = completedBoxes s"
  using assms by (simp add: handleMouseUp_def handleMouseDown_def Let_def)

section \<open>Normalised coordinates\<close>

lemma clamp_range: "0 \<le> max 0 (min 100 (x::real)) \<and> max 0 (min 100 x) \<le> 100"
  by (simp add: max_def min_def)

lemma clamp_below: "x \<le> 0 \<Longrightarrow> max 0 (min 100 (x::real)) = 0"
  by (simp add: max_def min_def)

lemma clamp_above: "100 \<le> x \<Longrightarrow> max 0 (min 100 (x::real)) = 100"
  by (simp add: max_def min_def)

lemma clamp_inside: "0 \<le> x \<and> x \<le> 100 \<Longrightarrow> max 0 (min 100 (x::real)) = x"
  by (simp add: max_def min_def)

lemma scaled_sign:
  fixes t w :: real
  assumes "0 < w"
  shows "(t / w * 100 \<le> 0 \<longleftrightarrow> t \<le> 0)" and "(100 \<le> t / w * 100 \<longleftrightarrow> w \<le> t)"
    and "(0 \<le> t / w * 100 \<longleftrightarrow> 0 \<le> t)" and "(t / w * 100 \<le> 100 \<longleftrightarrow> t \<le> w)"
  using assms by (simp_all add: field_simps)

text \<open>
  C6: for every mouse or touch position (cx, cy) and every image rectangle of positive
  width and height, \<open>getNormalizedCoords\<close> returns a point with both coordinates in
  [0,100]: each axis is the offset from the rectangle's left/top edge, divided by the
  rendered width/height, times 100, clamped on its own. A position left of or above the
  image gives 0, one right of or below it gives 100, and one inside is not changed by the
  clamp.
\<close>

theorem getNormalizedCoords_in_range:
  assumes "0 < rect_width r" and "0 < rect_height r"
    and "client_position e = Inr (cx, cy)"
  shows "\<exists>x y. getNormalizedCoords (Some r) e = Inr (Some (x, y))
           \<and> 0 \<le> x \<and> x \<le> 100 \<and> 0 \<le> y \<and> y \<le> 100
           \<and> x = max 0 (min 100 ((cx - rect_left r) / rect_width r * 100))
           \<and> y = max 0 (min 100 ((cy - rect_top r) / rect_height r * 100))
           \<and> (cx \<le> rect_left r \<longrightarrow> x = 0)
           \<and> (rect_left r + rect_width r \<le> cx \<longrightarrow> x = 100)
           \<and> (cy \<le> rect_top r \<longrightarrow> y = 0)
           \<and> (rect_top r + rect_height r \<le> cy \<longrightarrow> y = 100)
           \<and> (rect_left r \<le> cx \<and> cx \<le> rect_left r + rect_width r
                \<longrightarrow> x = (cx - rect_left r) / rect_width r * 100)
           \<and> (rect_top r \<le> cy \<and> cy \<le> rect_top r + rect_height r
                \<longrightarrow> y = (cy - rect_top r) / rect_height r * 100)"
proof -
  define x where "x = (cx - rect_left r) / rect_width r * 100"
  define y where "y = (cy - rect_top r) / rect_height r * 100"
  have res: "getNormalizedCoords (Some r) e = Inr (Some (max 0 (min 100 x), max 0 (min 100 y)))"
    using assms(3) by (simp add: getNormalizedCoords_def Let_def x_def y_def)
  have xl: "x \<le> 0" if "cx \<le> rect_left r"
    unfolding x_def using scaled_sign [OF assms(1), of "cx - rect_left r"] that by auto
  have xr: "100 \<le> x" if "rect_left r + rect_width r \<le> cx"
    unfolding x_def using scaled_sign [OF assms(1), of "cx - rect_left r"] that by auto
  have xi: "0 \<le> x \<and> x \<le> 100" if "rect_left r \<le> cx \<and> cx \<le> rect_left r + rect_width r"
    unfolding x_def using scaled_sign [OF assms(1), of "cx - rect_left r"] that by auto
  have yl: "y \<le> 0" if "cy \<le> rect_top r"
    unfolding y_def using scaled_sign [OF assms(2), of "cy - rect_top r"] that by auto
  have yr: "100 \<le> y" if "rect_top r + rect_height r \<le> cy"
    unfolding y_def using scaled_sign [OF assms(2), of "cy - rect_top r"] that by auto
  have yi: "0 \<le> y \<and> y \<le> 100" if "rect_top r \<le> cy \<and> cy \<le> rect_top r + rect_height r"
    unfolding y_def using scaled_sign [OF assms(2), of "cy - rect_top r"] that by auto
  have "getNormalizedCoords (Some r) e = Inr (Some (max 0 (min 100 x), max 0 (min 100 y)))
      \<and> 0 \<le> max 0 (min 100 x) \<and> max 0 (min 100 x) \<le> 100
      \<and> 0 \<le> max 0 (min 100 y) \<and> max 0 (min 100 y) \<le> 100
      \<and> max 0 (min 100 x) = max 0 (min 100 x)
      \<and> max 0 (min 100 y) = max 0 (min 100 y)
      \<and> (cx \<le> rect_left r \<longrightarrow> max 0 (min 100 x) = 0)
      \<and> (rect_left r + rect_width r \<le> cx \<longrightarrow> max 0 (min 100 x) = 100)
      \<and> (cy \<le> rect_top r \<longrightarrow> max 0 (min 100 y) = 0)
      \<and> (rect_top r + rect_height r \<le> cy \<longrightarrow> max 0 (min 100 y) = 100)
      \<and> (rect_left r \<le> cx \<and> cx \<le> rect_left r + rect_width r \<longrightarrow> max 0 (min 100 x) = x)
      \<and> (rect_top r \<le> cy \<and> cy \<le> rect_top r + rect_height r \<longrightarrow> max 0 (min 100 y) = y)"
    using res xl xr xi yl yr yi by (simp add: clamp_range clamp_below clamp_above clamp_inside)
  then show ?thesis unfolding x_def y_def by blast
qed

theorem getNormalizedCoords_in_range_witness:
  "getNormalizedCoords (Some \<lparr>rect_left = 100, rect_top = 50, rect_width = 400, rect_height = 200\<rparr>)
       (MouseEvent 200 300) = Inr (Some (25, 100))
   \<and> getNormalizedCoords (Some \<lparr>rect_left = 100, rect_top = 50, rect_width = 400, rect_height = 200\<rparr>)
       (TouchEvent [(40, 150), (0, 0)]) = Inr (Some (0, 50))"
  using getNormalizedCoords_in_range
      [of "\<lparr>rect_left = 100, rect_top = 50, rect_width = 400, rect_height = 200\<rparr>" "MouseEvent 200 300" 200 300]
    getNormalizedCoords_in_range
      [of "\<lparr>rect_left = 100, rect_top = 50, rect_width = 400, rect_height = 200\<rparr>" "TouchEvent [(40, 150), (0, 0)]" 40 150]
  by simp


section \<open>The gate of the synthesize action\<close>

text \<open>
  C4: in every session state where the room image is missing, the wallpaper image is
  missing, or no box is committed, \<open>startProcess\<close> sets the validation message and
  changes nothing else (so neither busy flag is raised and the session stays idle), and
  it makes no call to the analysis service, the synthesis service or the key dialog.
\<close>

theorem startProcess_gate:
  assumes "roomImage s = None \<or> wallpaperImage s = None \<or> completedBoxes s = []"
  shows "startProcess env s = ([], s\<lparr>error := Some validation_message\<rparr>)
         \<and> error (snd (startProcess env s)) = Some validation_message
         \<and> isAnalyzing (snd (startProcess env s)) = isAnalyzing s
         \<and> isGenerating (snd (startProcess env s)) = isGenerating s
         \<and> fst (startProcess env s) = []"
proof -
  have "startProcess env s = ([], s\<lparr>error := Some validation_message\<rparr>)"
    using assms by (auto simp: startProcess_def split: option.splits)
  then show ?thesis by simp
qed

theorem startProcess_gate_witness:
  "startProcess (constant_environment [] (Inl (Rejected None)) (Inl (Rejected None)) None)
       (ready_state\<lparr>completedBoxes := []\<rparr>)
     = ([], ready_state\<lparr>completedBoxes := [], error := Some validation_message\<rparr>)
   \<and> \<not> isAnalyzing (snd (startProcess
          (constant_environment [] (Inl (Rejected None)) (Inl (Rejected None)) None)
          (ready_state\<lparr>completedBoxes := []\<rparr>)))"
  using startProcess_gate
      [of "ready_state\<lparr>completedBoxes := []\<rparr>"
          "constant_environment [] (Inl (Rejected None)) (Inl (Rejected None)) None"]
  by (simp add: ready_state_def initial_state_def)


text \<open>
  The button is disabled in exactly the states the gate rejects, so a click reaches
  \<open>startProcess\<close> only in states that pass the gate.
\<close>

lemma synthesize_disabled_iff_gate:
  "synthesize_disabled s
     \<longleftrightarrow> startProcess env s = ([], s\<lparr>error := Some validation_message\<rparr>)
         \<and> (roomImage s = None \<or> wallpaperImage s = None \<or> completedBoxes s = [])"
  by (auto simp: synthesize_disabled_def startProcess_def split: option.splits)


section \<open>Calibration height\<close>

text \<open>Past the gate, the first call is the analysis request built from the session.\<close>

lemma startProcess_first_call:
  assumes "roomImage s = Some room" and "wallpaperImage s = Some wall"
    and "completedBoxes s \<noteq> []"
  shows "\<exists>rest. fst (startProcess env s) =
           AnalysisCall (analysis_request_of room wall (ReferenceType_value (refType s))
             (if refType s = A4_PAPER then 29.7 else refHeight s) (completedBoxes s)) # rest"
  using assms
  by (auto simp: startProcess_def startProcess_try_def analyzeMarkedRegions_def Let_def
      split: sum.splits prod.splits option.splits)

text \<open>
  C7: whenever the gate passes, the height given to the estimation client (and written
  into its request) is 29.7 when the reference type is \<open>A4_PAPER\<close>, whatever custom value
  is stored, and the stored value when it is \<open>DOOR_FRAME\<close>; the stored value starts at
  210, and choosing A4 and then the door frame again leaves it as it was.
\<close>

theorem resolved_height:
  assumes "roomImage s = Some room" and "wallpaperImage s = Some wall"
    and "completedBoxes s \<noteq> []"
  shows "(\<exists>request rest. fst (startProcess env s) = AnalysisCall request # rest
            \<and> prompt_real_world_cm request = (if refType s = A4_PAPER then 29.7 else refHeight s)
            \<and> prompt_scaling request =
                (if refType s = A4_PAPER then a4Instruction else doorInstruction (refHeight s)))
         \<and> refHeight initial_state = 210
         \<and> refHeight (setRefType DOOR_FRAME (setRefType A4_PAPER (setRefHeight h s))) = h
         \<and> refType (setRefType DOOR_FRAME (setRefType A4_PAPER (setRefHeight h s))) = DOOR_FRAME
         \<and> refHeight (setRefType A4_PAPER (setRefHeight h s)) = h"
proof -
  obtain rest where first: "fst (startProcess env s) =
      AnalysisCall (analysis_request_of room wall (ReferenceType_value (refType s))
        (if refType s = A4_PAPER then 29.7 else refHeight s) (completedBoxes s)) # rest"
    using startProcess_first_call [OF assms] by blast
  have scaling: "prompt_scaling (analysis_request_of room wall (ReferenceType_value (refType s))
        (if refType s = A4_PAPER then 29.7 else refHeight s) (completedBoxes s))
      = (if refType s = A4_PAPER then a4Instruction else doorInstruction (refHeight s))"
    by (cases "refType s") (simp_all add: analysis_request_of_def)
  have height: "prompt_real_world_cm (analysis_request_of room wall (ReferenceType_value (refType s))
        (if refType s = A4_PAPER then 29.7 else refHeight s) (completedBoxes s))
      = (if refType s = A4_PAPER then 29.7 else refHeight s)"
    by (simp add: analysis_request_of_def)
  from first scaling height show ?thesis
    by (simp add: initial_state_def setRefType_def setRefHeight_def)
qed

theorem resolved_height_witness:
  "(\<exists>request rest.
      fst (startProcess (constant_environment [] (Inl (Rejected None)) (Inl (Rejected None)) None)
             (setRefType A4_PAPER (setRefHeight 180 ready_state))) = AnalysisCall request # rest
      \<and> prompt_real_world_cm request = 29.7)
   \<and> (\<exists>request rest.
      fst (startProcess (constant_environment [] (Inl (Rejected None)) (Inl (Rejected None)) None)
             (setRefType DOOR_FRAME (setRefType A4_PAPER (setRefHeight 180 ready_state))))
        = AnalysisCall request # rest
      \<and> prompt_real_world_cm request = 180)"
  using resolved_height
      [of "setRefType A4_PAPER (setRefHeight 180 ready_state)" sample_room sample_wallpaper
          "constant_environment [] (Inl (Rejected None)) (Inl (Rejected None)) None"]
    resolved_height
      [of "setRefType DOOR_FRAME (setRefType A4_PAPER (setRefHeight 180 ready_state))"
          sample_room sample_wallpaper
          "constant_environment [] (Inl (Rejected None)) (Inl (Rejected None)) None"]
  by (simp add: ready_state_def initial_state_def setRefType_def setRefHeight_def) blast


section \<open>Replacing an image\<close>

text \<open>
  C10: uploading a wallpaper image, or clearing it, leaves the committed boxes, the
  estimation result, the preview image and the error slot as they were; an upload of a
  room image that is read clears all four.
\<close>

theorem wallpaper_replacement_keeps_derived_fields:
  "completedBoxes (handleFileUpload file setWallpaperImage s) = completedBoxes s
   \<and> metadata (handleFileUpload file setWallpaperImage s) = metadata s
   \<and> visualizedImage (handleFileUpload file setWallpaperImage s) = visualizedImage s
   \<and> error (handleFileUpload file setWallpaperImage s) = error s
   \<and> roomImage (handleFileUpload file setWallpaperImage s) = roomImage s
   \<and> completedBoxes (clearWallpaperImage s) = completedBoxes s
   \<and> metadata (clearWallpaperImage s) = metadata s
   \<and> visualizedImage (clearWallpaperImage s) = visualizedImage s
   \<and> error (clearWallpaperImage s) = error s
   \<and> (reader_result f = Some url \<longrightarrow>
        completedBoxes (handleFileUpload (Some f) setRoomImage s) = []
        \<and> metadata (handleFileUpload (Some f) setRoomImage s) = None
        \<and> visualizedImage (handleFileUpload (Some f) setRoomImage s) = None
        \<and> error (handleFileUpload (Some f) setRoomImage s) = None
        \<and> roomImage (handleFileUpload (Some f) setRoomImage s) \<noteq> None
        \<and> wallpaperImage (handleFileUpload (Some f) setRoomImage s) = wallpaperImage s)"
  by (simp add: handleFileUpload_def clearWallpaperImage_def Let_def split: option.splits)

theorem wallpaper_replacement_keeps_derived_fields_witness:
  "completedBoxes (handleFileUpload
       (Some \<lparr>reader_result = Some ''data:image/png;base64,QUJD'', file_type = ''image/png''\<rparr>)
       setRoomImage (ready_state\<lparr>error := Some generic_message\<rparr>)) = []
   \<and> error (handleFileUpload
       (Some \<lparr>reader_result = Some ''data:image/png;base64,QUJD'', file_type = ''image/png''\<rparr>)
       setRoomImage (ready_state\<lparr>error := Some generic_message\<rparr>)) = None
   \<and> completedBoxes (handleFileUpload
       (Some \<lparr>reader_result = Some ''data:image/png;base64,QUJD'', file_type = ''image/png''\<rparr>)
       setWallpaperImage (ready_state\<lparr>error := Some generic_message\<rparr>)) = [sample_box]"
  using wallpaper_replacement_keeps_derived_fields
      [of "Some \<lparr>reader_result = Some ''data:image/png;base64,QUJD'', file_type = ''image/png''\<rparr>"
          "ready_state\<lparr>error := Some generic_message\<rparr>"
          "\<lparr>reader_result = Some ''data:image/png;base64,QUJD'', file_type = ''image/png''\<rparr>"
          "''data:image/png;base64,QUJD''"]
  by (simp add: ready_state_def initial_state_def)

text \<open>The explicit reset clears the derived fields and both images.\<close>

lemma reset_clears_session:
  "completedBoxes (reset s) = [] \<and> metadata (reset s) = None \<and> visualizedImage (reset s) = None
   \<and> error (reset s) = None \<and> roomImage (reset s) = None \<and> wallpaperImage (reset s) = None
   \<and> refType (reset s) = refType s \<and> refHeight (reset s) = refHeight s"
  by (simp add: reset_def)

text \<open>Undoing removes the last committed box and does nothing on an empty list.\<close>

lemma undoLastBox_last:
  "completedBoxes (undoLastBox (s\<lparr>completedBoxes := bs @ [b]\<rparr>)) = bs
   \<and> undoLastBox (s\<lparr>completedBoxes := []\<rparr>) = s\<lparr>completedBoxes := []\<rparr>"
  by (simp add: undoLastBox_def)

text \<open>The stored payload is the part of the data URL after its first comma.\<close>

lemma upload_reads_base64_part:
  "roomImage (handleFileUpload
       (Some \<lparr>reader_result = Some ''data:image/png;base64,QUJD'', file_type = ''image/png''\<rparr>)
       setRoomImage initial_state) = Some \<lparr>data = Some ''QUJD'', mimeType = ''image/png''\<rparr>"
  by (simp add: handleFileUpload_def Let_def)


section \<open>Extracting the rendered image\<close>

text \<open>The loop returns the data URI of the first part that carries inline data.\<close>

lemma scan_parts_first_inline:
  "scan_parts ps =
     (case List.map_filter inlineData ps of [] \<Rightarrow> None | b # bs \<Rightarrow> Some (data_uri b))"
  by (induction ps) (simp_all split: option.splits)

text \<open>Every part the loop reads is a part of the first candidate of the response.\<close>

lemma response_parts_subset:
  assumes "p \<in> set (response_parts response)"
  shows "\<exists>cs c ct ps. candidates response = Some cs \<and> c \<in> set cs \<and> content c = Some ct
           \<and> parts ct = Some ps \<and> p \<in> set ps"
proof (cases "candidates response")
  case None
  with assms show ?thesis by (simp add: response_parts_def)
next
  case (Some cs)
  show ?thesis
  proof (cases cs)
    case Nil
    with Some assms show ?thesis by (simp add: response_parts_def)
  next
    case (Cons c rest)
    show ?thesis
    proof (cases "content c")
      case None
      with Some Cons assms show ?thesis by (simp add: response_parts_def)
    next
      case ct: (Some ct)
      show ?thesis
      proof (cases "parts ct")
        case None
        with Some Cons ct assms show ?thesis by (simp add: response_parts_def)
      next
        case ps: (Some ps)
        with Some Cons ct assms have "p \<in> set ps" by (simp add: response_parts_def)
        with Some Cons ct ps show ?thesis by auto
      qed
    qed
  qed
qed

text \<open>Filtering a list on which the selector is undefined everywhere leaves nothing.\<close>

lemma map_filter_empty:
  "(\<forall>p \<in> set ps. f p = None) \<Longrightarrow> List.map_filter f ps = []"
  by (induction ps) simp_all

text \<open>
  C9, as stated, fails: a response whose first candidate holds only text and whose second
  candidate holds the image does contain an inline image payload, and the client fails
  with \<open>Visualization synthesis failed\<close> instead of returning it.
\<close>

theorem generateMaskedVisualization_skips_later_candidates:
  "snd (generateMaskedVisualization
          (constant_environment [] (Inl (Rejected None)) (Inr image_in_second_candidate) None)
          sample_room sample_wallpaper regions_only_value)
     = Inl (Error ''Visualization synthesis failed'')
   \<and> spec_inline_payloads image_in_second_candidate
     = [\<lparr>blob_data = Some ''QUJD'', blob_mimeType = Some ''image/png''\<rparr>]
   \<and> response_parts image_in_second_candidate
     = [\<lparr>inlineData = None, part_text = Some ''Rendering the room.''\<rparr>]"
  by (simp add: generateMaskedVisualization_def region_points_def regions_only_value_def
      constant_environment_def image_in_second_candidate_def response_parts_def
      spec_inline_payloads_def candidate_payloads_def Let_def)

text \<open>
  C9, amended: for every response of the synthesis service, \<open>generateMaskedVisualization\<close>
  reads the parts of the response's first candidate only. It returns the payload of the
  first of these parts that carries inline data, as a data URI that starts with
  \<open>data:image/png;base64,\<close>; when none of them does, and so whenever no part of any
  candidate of the response carries inline data, it fails with the error
  \<open>Visualization synthesis failed\<close> and returns no value. Inline data in a later
  candidate is not read.
\<close>

theorem generateMaskedVisualization_first_inline_image:
  assumes "region_points md = Inr pts"
    and "synthesis_service env (synthesis_request_of room wall pts) = Inr response"
  shows "snd (generateMaskedVisualization env room wall md) =
           (case List.map_filter inlineData (response_parts response) of
              [] \<Rightarrow> Inl (Error ''Visualization synthesis failed'')
            | b # bs \<Rightarrow>
                Inr (''data:image/png;base64,''
                       @ (case blob_data b of None \<Rightarrow> ''undefined'' | Some d \<Rightarrow> d)))
         \<and> ((\<forall>cs c ct ps p. candidates response = Some cs \<and> c \<in> set cs \<and> content c = Some ct
                \<and> parts ct = Some ps \<and> p \<in> set ps \<longrightarrow> inlineData p = None)
              \<longrightarrow> snd (generateMaskedVisualization env room wall md)
                    = Inl (Error ''Visualization synthesis failed''))"
proof -
  have result: "snd (generateMaskedVisualization env room wall md) =
      (case scan_parts (response_parts response) of
         Some uri \<Rightarrow> Inr uri
       | None \<Rightarrow> Inl (Error ''Visualization synthesis failed''))"
    using assms by (simp add: generateMaskedVisualization_def Let_def)
  have first: "snd (generateMaskedVisualization env room wall md) =
      (case List.map_filter inlineData (response_parts response) of
         [] \<Rightarrow> Inl (Error ''Visualization synthesis failed'')
       | b # bs \<Rightarrow>
           Inr (''data:image/png;base64,''
                  @ (case blob_data b of None \<Rightarrow> ''undefined'' | Some d \<Rightarrow> d)))"
    unfolding result scan_parts_first_inline
    by (simp add: data_uri_def split: list.splits)
  have none: "snd (generateMaskedVisualization env room wall md)
                = Inl (Error ''Visualization synthesis failed'')"
    if "\<forall>cs c ct ps p. candidates response = Some cs \<and> c \<in> set cs \<and> content c = Some ct
          \<and> parts ct = Some ps \<and> p \<in> set ps \<longrightarrow> inlineData p = None"
  proof -
    have "\<forall>p \<in> set (response_parts response). inlineData p = None"
      using that response_parts_subset by blast
    then have "List.map_filter inlineData (response_parts response) = []"
      by (rule map_filter_empty)
    then show ?thesis unfolding first by simp
  qed
  from first none show ?thesis by blast
qed

theorem generateMaskedVisualization_first_inline_image_witness:
  "snd (generateMaskedVisualization
     (constant_environment [] (Inl (Rejected None))
        (Inr \<lparr>candidates = Some [\<lparr>content = Some \<lparr>parts = Some
                 [\<lparr>inlineData = None, part_text = Some ''Here is the render''\<rparr>,
                  \<lparr>inlineData = Some \<lparr>blob_data = Some ''QUJD'', blob_mimeType = Some ''image/jpeg''\<rparr>,
                    part_text = None\<rparr>,
                  \<lparr>inlineData = Some \<lparr>blob_data = Some ''REVG'', blob_mimeType = Some ''image/png''\<rparr>,
                    part_text = None\<rparr>]\<rparr>\<rparr>],
              response_text = None\<rparr>) None)
     sample_room sample_wallpaper (JObject [(''regions'', JArray [])]))
   = Inr ''data:image/png;base64,QUJD''"
  using generateMaskedVisualization_first_inline_image
    [of "JObject [(''regions'', JArray [])]" "[]"
        "constant_environment [] (Inl (Rejected None))
        (Inr \<lparr>candidates = Some [\<lparr>content = Some \<lparr>parts = Some
                 [\<lparr>inlineData = None, part_text = Some ''Here is the render''\<rparr>,
                  \<lparr>inlineData = Some \<lparr>blob_data = Some ''QUJD'', blob_mimeType = Some ''image/jpeg''\<rparr>,
                    part_text = None\<rparr>,
                  \<lparr>inlineData = Some \<lparr>blob_data = Some ''REVG'', blob_mimeType = Some ''image/png''\<rparr>,
                    part_text = None\<rparr>]\<rparr>\<rparr>],
              response_text = None\<rparr>) None"
        sample_room sample_wallpaper
        "\<lparr>candidates = Some [\<lparr>content = Some \<lparr>parts = Some
                 [\<lparr>inlineData = None, part_text = Some ''Here is the render''\<rparr>,
                  \<lparr>inlineData = Some \<lparr>blob_data = Some ''QUJD'', blob_mimeType = Some ''image/jpeg''\<rparr>,
                    part_text = None\<rparr>,
                  \<lparr>inlineData = Some \<lparr>blob_data = Some ''REVG'', blob_mimeType = Some ''image/png''\<rparr>,
                    part_text = None\<rparr>]\<rparr>\<rparr>],
              response_text = None\<rparr>"]
  by (simp add: region_points_def constant_environment_def response_parts_def)

text \<open>A response whose only candidate has no parts makes the client fail.\<close>

lemma generateMaskedVisualization_without_image:
  "generateMaskedVisualization
     (constant_environment [] (Inl (Rejected None))
        (Inr \<lparr>candidates = Some [\<lparr>content = None\<rparr>], response_text = Some ''blocked''\<rparr>) None)
     sample_room sample_wallpaper (JObject [(''regions'', JArray [])])
   = ([SynthesisCall (synthesis_request_of sample_room sample_wallpaper [])],
      Inl (Error ''Visualization synthesis failed''))"
  by (simp add: generateMaskedVisualization_def region_points_def constant_environment_def
      response_parts_def Let_def)

text \<open>A result without a region list makes the client throw before it calls the service.\<close>

lemma generateMaskedVisualization_without_regions:
  "generateMaskedVisualization env room wall (JObject [])
     = ([], Inl (TypeError ''Cannot read properties of undefined (reading map)''))"
  by (simp add: generateMaskedVisualization_def region_points_def)


section \<open>Parsing the analysis response\<close>

text \<open>
  C2, as stated, fails: a response without text, and a response whose text holds only a
  \<open>regions\<close> field, are both returned as results; neither has the required fields and
  no error is raised.
\<close>

theorem analyzeMarkedRegions_returns_incomplete_result:
  "snd (analyzeMarkedRegions
          (constant_environment sample_texts (Inr (text_response None)) (Inl (Rejected None)) None)
          sample_room sample_wallpaper ''Door'' 210 [sample_box]) = Inr (JObject [])
   \<and> \<not> spec_has_required_fields (JObject [])
   \<and> snd (analyzeMarkedRegions
          (constant_environment sample_texts (Inr (text_response (Some regions_only_text)))
             (Inl (Rejected None)) None)
          sample_room sample_wallpaper ''Door'' 210 [sample_box]) = Inr regions_only_value
   \<and> \<not> spec_has_required_fields regions_only_value"
  by (simp add: analyzeMarkedRegions_def constant_environment_def text_response_def
      text_or_default_def JSON_parse_table_def sample_texts_def regions_only_text_def
      regions_only_value_def spec_has_required_fields_def overcount_text_def)

text \<open>
  C2, amended: the estimation client names the four fields as required in the response
  schema of its request, and does not check the response. It fails exactly when the
  service call fails or \<open>JSON.parse\<close> rejects the text; otherwise it returns the parsed
  value as it is, with or without the required fields. A response with no text, or with
  the empty text, is parsed as \<open>{}\<close>.
\<close>

theorem analyzeMarkedRegions_unchecked_result:
  "schema_required (analysis_request_of room wall refTy refH boxes)
     = [''calibration'', ''wallpaper'', ''regions'', ''total_rolls_estimated'']
   \<and> (\<forall>err. analysis_service env (analysis_request_of room wall refTy refH boxes) = Inl err
        \<longrightarrow> snd (analyzeMarkedRegions env room wall refTy refH boxes) = Inl err)
   \<and> (\<forall>response. analysis_service env (analysis_request_of room wall refTy refH boxes) = Inr response
        \<longrightarrow> snd (analyzeMarkedRegions env room wall refTy refH boxes)
              = JSON_parse env (text_or_default (response_text response)))
   \<and> text_or_default None = ''{}''
   \<and> text_or_default (Some []) = ''{}''
   \<and> (t \<noteq> [] \<longrightarrow> text_or_default (Some t) = t)"
  by (simp add: analyzeMarkedRegions_def analysis_request_of_def text_or_default_def Let_def)

theorem analyzeMarkedRegions_unchecked_result_witness:
  "snd (analyzeMarkedRegions
          (constant_environment sample_texts (Inr (text_response (Some []))) (Inl (Rejected None)) None)
          sample_room sample_wallpaper ''A4_paper'' 29.7 [sample_box]) = Inr (JObject [])
   \<and> snd (analyzeMarkedRegions
          (constant_environment sample_texts (Inl (Rejected (Some ''503 Service Unavailable'')))
             (Inl (Rejected None)) None)
          sample_room sample_wallpaper ''A4_paper'' 29.7 [sample_box])
       = Inl (Rejected (Some ''503 Service Unavailable''))
   \<and> snd (analyzeMarkedRegions
          (constant_environment sample_texts (Inr (text_response (Some ''not json''))) (Inl (Rejected None)) None)
          sample_room sample_wallpaper ''A4_paper'' 29.7 [sample_box])
       = Inl (SyntaxError ''Unexpected token'')"
  using analyzeMarkedRegions_unchecked_result
      [of sample_room sample_wallpaper "''A4_paper''" "29.7" "[sample_box]"
          "constant_environment sample_texts (Inr (text_response (Some []))) (Inl (Rejected None)) None"
          "''not json''"]
    analyzeMarkedRegions_unchecked_result
      [of sample_room sample_wallpaper "''A4_paper''" "29.7" "[sample_box]"
          "constant_environment sample_texts (Inl (Rejected (Some ''503 Service Unavailable'')))
             (Inl (Rejected None)) None"
          "''not json''"]
    analyzeMarkedRegions_unchecked_result
      [of sample_room sample_wallpaper "''A4_paper''" "29.7" "[sample_box]"
          "constant_environment sample_texts (Inr (text_response (Some ''not json''))) (Inl (Rejected None)) None"
          "''not json''"]
  by (simp add: constant_environment_def text_response_def JSON_parse_table_def sample_texts_def
      regions_only_text_def overcount_text_def)


section \<open>Strip counts\<close>

text \<open>
  C3, as stated, fails: for a response that reports one region 140 cm wide and 7 rolls in
  total, the client returns that result, although the sum of the per-region strip counts
  is \<open>ceiling(140 / 70) = 2\<close>.
\<close>

theorem analyzeMarkedRegions_total_not_sum_of_strips:
  "snd (analyzeMarkedRegions
          (constant_environment sample_texts (Inr (text_response (Some overcount_text)))
             (Inl (Rejected None)) None)
          sample_room sample_wallpaper ''Door'' 210 [sample_box]) = Inr overcount_value
   \<and> spec_has_required_fields overcount_value
   \<and> region_widths overcount_value = [Some 140]
   \<and> number_property overcount_value ''total_rolls_estimated'' = Some 7
   \<and> spec_total_rolls [140] = 2"
  by (simp add: analyzeMarkedRegions_def constant_environment_def text_response_def
      text_or_default_def JSON_parse_table_def sample_texts_def regions_only_text_def
      overcount_text_def overcount_value_def spec_has_required_fields_def region_widths_def
      number_property_def spec_total_rolls_def spec_strips_def)

text \<open>
  C3, amended: the rule "strips for a region = ceiling(width in cm / 70), a partial strip
  counts as one full roll, total = sum of the strips" is wording of the one request the
  estimation client sends to the service. The client computes no strip count: when the
  service answers and its text parses, the result is the parsed value, so the region
  widths and \<open>total_rolls_estimated\<close> it returns are those of the response, whatever
  their relation.
\<close>

theorem analyzeMarkedRegions_returns_service_figures:
  assumes "analysis_service env (analysis_request_of room wall refTy refH boxes) = Inr response"
    and "JSON_parse env (text_or_default (response_text response)) = Inr v"
  shows "(\<exists>request. fst (analyzeMarkedRegions env room wall refTy refH boxes) = [AnalysisCall request]
            \<and> prompt_roll_logic request = roll_logic_lines
            \<and> prompt_calculation request = calculation_lines)
         \<and> (\<exists>result. snd (analyzeMarkedRegions env room wall refTy refH boxes) = Inr result
            \<and> number_property result ''total_rolls_estimated''
                = number_property v ''total_rolls_estimated''
            \<and> region_widths result = region_widths v
            \<and> result = v)"
  using assms by (simp add: analyzeMarkedRegions_def analysis_request_of_def Let_def)

theorem analyzeMarkedRegions_returns_service_figures_witness:
  "\<exists>result. snd (analyzeMarkedRegions
          (constant_environment sample_texts (Inr (text_response (Some overcount_text)))
             (Inl (Rejected None)) None)
          sample_room sample_wallpaper ''Door'' 210 [sample_box]) = Inr result
      \<and> number_property result ''total_rolls_estimated'' = Some 7
      \<and> region_widths result = [Some 140]"
proof -
  let ?env = "constant_environment sample_texts (Inr (text_response (Some overcount_text)))
             (Inl (Rejected None)) None"
  have answer: "analysis_service ?env
      (analysis_request_of sample_room sample_wallpaper ''Door'' 210 [sample_box])
        = Inr (text_response (Some overcount_text))"
    by (simp add: constant_environment_def)
  have parsed: "JSON_parse ?env (text_or_default (response_text (text_response (Some overcount_text))))
        = Inr overcount_value"
    by (simp add: constant_environment_def text_response_def text_or_default_def
        JSON_parse_table_def sample_texts_def regions_only_text_def overcount_text_def)
  have figures: "number_property overcount_value ''total_rolls_estimated'' = Some 7
      \<and> region_widths overcount_value = [Some 140]"
    by (simp add: overcount_value_def region_widths_def number_property_def)
  from analyzeMarkedRegions_returns_service_figures [OF answer parsed] figures
  show ?thesis by auto
qed

text \<open>The rule in the specification's words has the properties the specification lists.\<close>

lemma spec_strips_mono: "w1 \<le> w2 \<Longrightarrow> spec_strips w1 \<le> spec_strips w2"
  unfolding spec_strips_def by (intro ceiling_mono divide_right_mono) simp_all

lemma spec_strips_examples:
  "spec_strips 140 = 2" and "spec_strips 141 = 3" and "spec_strips 69 = 1"
  by (simp_all add: spec_strips_def)

lemma spec_strips_whole_rolls: "spec_strips (70 * of_int k) = k"
  by (simp add: spec_strips_def)

lemma spec_total_rolls_example: "spec_total_rolls [140, 141] = 5"
  by (simp add: spec_total_rolls_def spec_strips_def)


section \<open>Failures of the synthesize flow\<close>

text \<open>The body of the \<open>try\<close> block calls the two services only.\<close>

lemma startProcess_try_calls:
  "OpenSelectKey \<notin> set (fst (startProcess_try env room wall s))"
  by (auto simp: startProcess_try_def analyzeMarkedRegions_def generateMaskedVisualization_def
      Let_def split: sum.splits prod.splits option.splits)

text \<open>The body of the \<open>try\<close> block changes neither the error slot nor the key flag.\<close>

lemma startProcess_try_keeps:
  "error (fst (snd (startProcess_try env room wall s))) = error s
   \<and> keySelected (fst (snd (startProcess_try env room wall s))) = keySelected s"
  by (auto simp: startProcess_try_def Let_def split: sum.splits prod.splits option.splits)

text \<open>The error shown before an attempt has no influence on the attempt.\<close>

lemma startProcess_forgets_prior_error:
  "startProcess env (s\<lparr>error := prior\<rparr>) = startProcess env s"
  by (simp add: startProcess_def split: option.splits)

text \<open>
  C8: whenever the gate passes and the \<open>try\<close> block throws, then, if the thrown value's
  message contains the credential signature \<open>Requested entity was not found.\<close>, the
  controller asks for a key again (it clears the key flag and opens the key dialog of the
  host when there is one) and no error message is set; for every other thrown value the
  error slot holds the generic message and no key is asked for. Both busy flags are
  cleared. The error slot holds at most one message, and the message shown before the
  attempt is gone in either case.
\<close>

theorem startProcess_failure:
  assumes "roomImage s = Some room" and "wallpaperImage s = Some wall"
    and "completedBoxes s \<noteq> []"
    and "startProcess_try env room wall (s\<lparr>error := None, isAnalyzing := True\<rparr>)
           = (calls, s1, Some err)"
  shows "(is_key_failure err \<longrightarrow>
            error (snd (startProcess env s)) = None
            \<and> (case aistudio env of
                  None \<Rightarrow> \<not> keySelected (snd (startProcess env s))
                          \<and> fst (startProcess env s) = calls
                | Some Resolves \<Rightarrow> keySelected (snd (startProcess env s))
                          \<and> fst (startProcess env s) = calls @ [OpenSelectKey]
                | Some Rejects \<Rightarrow> \<not> keySelected (snd (startProcess env s))
                          \<and> fst (startProcess env s) = calls @ [OpenSelectKey]))
         \<and> (\<not> is_key_failure err \<longrightarrow>
               error (snd (startProcess env s)) = Some generic_message
               \<and> keySelected (snd (startProcess env s)) = keySelected s
               \<and> fst (startProcess env s) = calls
               \<and> OpenSelectKey \<notin> set (fst (startProcess env s)))
         \<and> \<not> isAnalyzing (snd (startProcess env s))
         \<and> \<not> isGenerating (snd (startProcess env s))
         \<and> startProcess env (s\<lparr>error := prior\<rparr>) = startProcess env s"
proof -
  have run: "startProcess env s =
      (let (calls2, s2) = startProcess_catch env err s1 in (calls @ calls2, s2))"
    using assms by (simp add: startProcess_def)
  have kept: "error s1 = None \<and> keySelected s1 = keySelected s"
    using startProcess_try_keeps [of env room wall "s\<lparr>error := None, isAnalyzing := True\<rparr>"]
      assms(4) by simp
  have no_key_call: "OpenSelectKey \<notin> set calls"
    using startProcess_try_calls [of env room wall "s\<lparr>error := None, isAnalyzing := True\<rparr>"]
      assms(4) by simp
  have key: "error (snd (startProcess env s)) = None
      \<and> (case aistudio env of
            None \<Rightarrow> \<not> keySelected (snd (startProcess env s))
                    \<and> fst (startProcess env s) = calls
          | Some Resolves \<Rightarrow> keySelected (snd (startProcess env s))
                    \<and> fst (startProcess env s) = calls @ [OpenSelectKey]
          | Some Rejects \<Rightarrow> \<not> keySelected (snd (startProcess env s))
                    \<and> fst (startProcess env s) = calls @ [OpenSelectKey])"
    if "is_key_failure err"
    unfolding run using that kept
    by (simp add: startProcess_catch_def handleSelectKey_def startProcess_finally_def
        split: option.splits promise_outcome.splits)
  have other: "error (snd (startProcess env s)) = Some generic_message
      \<and> keySelected (snd (startProcess env s)) = keySelected s
      \<and> fst (startProcess env s) = calls
      \<and> OpenSelectKey \<notin> set (fst (startProcess env s))"
    if "\<not> is_key_failure err"
    unfolding run using that kept no_key_call
    by (simp add: startProcess_catch_def startProcess_finally_def)
  have flags: "\<not> isAnalyzing (snd (startProcess env s)) \<and> \<not> isGenerating (snd (startProcess env s))"
    unfolding run
    by (simp add: startProcess_catch_def handleSelectKey_def startProcess_finally_def
        split: option.splits promise_outcome.splits)
  from key other flags startProcess_forgets_prior_error [of env prior s]
  show ?thesis by blast
qed

theorem startProcess_failure_witness:
  "error (snd (startProcess
       (constant_environment sample_texts
          (Inl (Rejected (Some ''404 Requested entity was not found. Check the key.'')))
          (Inl (Rejected None)) (Some Resolves))
       (ready_state\<lparr>error := Some generic_message\<rparr>))) = None
   \<and> OpenSelectKey \<in> set (fst (startProcess
       (constant_environment sample_texts
          (Inl (Rejected (Some ''404 Requested entity was not found. Check the key.'')))
          (Inl (Rejected None)) (Some Resolves))
       (ready_state\<lparr>error := Some generic_message\<rparr>)))
   \<and> error (snd (startProcess
       (constant_environment sample_texts (Inl (Rejected (Some ''503 Service Unavailable'')))
          (Inl (Rejected None)) (Some Resolves))
       (ready_state\<lparr>error := Some validation_message\<rparr>))) = Some generic_message"
proof -
  let ?key_env = "constant_environment sample_texts
          (Inl (Rejected (Some ''404 Requested entity was not found. Check the key.'')))
          (Inl (Rejected None)) (Some Resolves)"
  let ?down_env = "constant_environment sample_texts
          (Inl (Rejected (Some ''503 Service Unavailable''))) (Inl (Rejected None)) (Some Resolves)"
  let ?request = "analysis_request_of sample_room sample_wallpaper ''A4_paper'' 29.7 [sample_box]"
  have room: "roomImage ready_state = Some sample_room"
    and wall: "wallpaperImage ready_state = Some sample_wallpaper"
    and boxes: "completedBoxes ready_state \<noteq> []"
    by (simp_all add: ready_state_def)
  have key_try: "startProcess_try ?key_env sample_room sample_wallpaper
        (ready_state\<lparr>error := None, isAnalyzing := True\<rparr>)
      = ([AnalysisCall ?request], ready_state\<lparr>error := None, isAnalyzing := True\<rparr>,
         Some (Rejected (Some ''404 Requested entity was not found. Check the key.'')))"
    by (simp add: startProcess_try_def analyzeMarkedRegions_def constant_environment_def
        ready_state_def initial_state_def Let_def)
  have down_try: "startProcess_try ?down_env sample_room sample_wallpaper
        (ready_state\<lparr>error := None, isAnalyzing := True\<rparr>)
      = ([AnalysisCall ?request], ready_state\<lparr>error := None, isAnalyzing := True\<rparr>,
         Some (Rejected (Some ''503 Service Unavailable'')))"
    by (simp add: startProcess_try_def analyzeMarkedRegions_def constant_environment_def
        ready_state_def initial_state_def Let_def)
  have is_key: "is_key_failure (Rejected (Some ''404 Requested entity was not found. Check the key.''))"
    by (simp add: is_key_failure_def)
  have not_key: "\<not> is_key_failure (Rejected (Some ''503 Service Unavailable''))"
    by (simp add: is_key_failure_def)
  have studio: "aistudio ?key_env = Some Resolves"
    by (simp add: constant_environment_def)
  from startProcess_failure [OF room wall boxes key_try, of "Some generic_message"] is_key studio
    startProcess_failure [OF room wall boxes down_try, of "Some validation_message"] not_key
  show ?thesis by simp
qed

text \<open>The visualization client returns an image only for a result that is not \<open>null\<close>.\<close>

lemma generateMaskedVisualization_not_null:
  assumes "generateMaskedVisualization env room wall md = (calls, Inr uri)"
  shows "md \<noteq> JNull"
proof
  assume "md = JNull"
  then have "snd (generateMaskedVisualization env room wall md)
      = Inl (TypeError (''Cannot read properties of null (reading '' @ ''regions'' @ '')''))"
    by (simp add: generateMaskedVisualization_def region_points_def)
  with assms show False by simp
qed

text \<open>When the \<open>try\<close> block completes, it has stored the result and the image.\<close>

lemma startProcess_try_completed:
  assumes "startProcess_try env room wall s = (calls, s1, None)"
  shows "\<exists>md calls2 uri. generateMaskedVisualization env room wall md = (calls2, Inr uri)
           \<and> metadata s1 = metadata_cell md \<and> visualizedImage s1 = Some uri
           \<and> error s1 = error s"
  using assms
  by (fastforce simp: startProcess_try_def Let_def split: sum.splits prod.splits)

text \<open>
  When both services answer and an image is found, the preview and the result are set,
  no error is shown and both busy flags are cleared.
\<close>

lemma startProcess_success:
  assumes "roomImage s = Some room" and "wallpaperImage s = Some wall"
    and "completedBoxes s \<noteq> []"
    and "startProcess_try env room wall (s\<lparr>error := None, isAnalyzing := True\<rparr>)
           = (calls, s1, None)"
  shows "error (snd (startProcess env s)) = None
         \<and> visualizedImage (snd (startProcess env s)) \<noteq> None
         \<and> metadata (snd (startProcess env s)) \<noteq> None
         \<and> \<not> isAnalyzing (snd (startProcess env s))
         \<and> \<not> isGenerating (snd (startProcess env s))"
proof -
  have run: "startProcess env s = (calls, startProcess_finally s1)"
    using assms by (simp add: startProcess_def)
  obtain md calls2 uri where
    rendered: "generateMaskedVisualization env room wall md = (calls2, Inr uri)"
    and stored: "metadata s1 = metadata_cell md" "visualizedImage s1 = Some uri"
      "error s1 = error (s\<lparr>error := None, isAnalyzing := True\<rparr>)"
    using startProcess_try_completed [OF assms(4)] by blast
  have "md \<noteq> JNull"
    using generateMaskedVisualization_not_null [OF rendered] .
  with stored have "error s1 = None \<and> visualizedImage s1 \<noteq> None \<and> metadata s1 \<noteq> None"
    by (simp add: metadata_cell_def)
  then show ?thesis unfolding run by (simp add: startProcess_finally_def)
qed

text \<open>
  A parsed \<open>null\<close> leaves the result cell empty, and the visualization client throws on
  reading its regions before any synthesis call.
\<close>

lemma startProcess_try_on_null:
  assumes "analysis_service env
             (analysis_request_of room wall (ReferenceType_value (refType s))
                (if refType s = A4_PAPER then 29.7 else refHeight s) (completedBoxes s))
           = Inr response"
    and "JSON_parse env (text_or_default (response_text response)) = Inr JNull"
  shows "\<exists>request s1 err. startProcess_try env room wall s = ([AnalysisCall request], s1, Some err)
           \<and> metadata s1 = None"
  using assms
  by (simp add: startProcess_try_def analyzeMarkedRegions_def generateMaskedVisualization_def
      region_points_def metadata_cell_def Let_def)

text \<open>
  A response without text is stored as the empty result; the flow then fails in the
  visualization client before any synthesis call, and the generic message is shown.
\<close>

lemma startProcess_on_empty_response:
  "startProcess (constant_environment sample_texts (Inr (text_response None))
                   (Inl (Rejected None)) None) ready_state
     = ([AnalysisCall (analysis_request_of sample_room sample_wallpaper ''A4_paper'' 29.7
                        [sample_box])],
        ready_state\<lparr>metadata := Some (JObject []), error := Some generic_message\<rparr>)"
  by (simp add: startProcess_def startProcess_try_def startProcess_catch_def
      startProcess_finally_def analyzeMarkedRegions_def generateMaskedVisualization_def
      region_points_def is_key_failure_def constant_environment_def text_response_def
      text_or_default_def JSON_parse_table_def sample_texts_def regions_only_text_def
      overcount_text_def ready_state_def initial_state_def metadata_cell_def Let_def)

end
